theory Spec2Isabelle
  imports Main "HOL-Library.Sublist"
begin

section \<open>Formulas (propositions.py, classes PrimitiveProposition and Proposition)\<close>

text \<open>
  A \<open>PrimitiveProposition\<close> carries a name; a \<open>Proposition\<close> carries its two
  operands and the name \<open>f"({left} => {right})"\<close> built from their string forms.
  Python's \<open>str\<close> is modelled as \<open>string\<close>, a non-ASCII character by its UTF-8 bytes.
\<close>

datatype formula = PrimitiveProposition string | Proposition formula formula

fun name :: "formula \<Rightarrow> string" where
  "name (PrimitiveProposition n) = n"
| "name (Proposition left right) = ''('' @ name left @ '' => '' @ name right @ '')''"

text \<open>
  \<open>__hash__\<close> returns \<open>hash(self.name)\<close> and \<open>__eq__(self, other)\<close> compares
  \<open>self.__hash__()\<close> with \<open>other.__hash__()\<close>. Python's built-in hash of a string is
  not part of the repository: it is the parameter \<open>h\<close> of every definition that compares
  formulas, with hash values of any type \<open>'h\<close>. The \<open>other\<close> of \<open>__eq__\<close> may be any object;
  an object that is not a formula is represented by the value its \<open>__hash__()\<close> returns.
\<close>

datatype 'h pyobject = Formula formula | Hashable 'h

fun obj_hash :: "(string \<Rightarrow> 'h) \<Rightarrow> 'h pyobject \<Rightarrow> 'h" where
  "obj_hash h (Formula f) = h (name f)"
| "obj_hash h (Hashable v) = v"

definition dunder_eq :: "(string \<Rightarrow> 'h) \<Rightarrow> formula \<Rightarrow> 'h pyobject \<Rightarrow> bool" where
  "dunder_eq h self other = (obj_hash h (Formula self) = obj_hash h other)"

text \<open>\<open>a == b\<close> and \<open>a != b\<close> between two formulas.\<close>

definition prop_eq :: "(string \<Rightarrow> 'h) \<Rightarrow> formula \<Rightarrow> formula \<Rightarrow> bool" where
  "prop_eq h a b = dunder_eq h a (Formula b)"

definition prop_ne :: "(string \<Rightarrow> 'h) \<Rightarrow> formula \<Rightarrow> formula \<Rightarrow> bool" where
  "prop_ne h a b = (\<not> prop_eq h a b)"

text \<open>The operators \<open>>\<close> (\<open>__gt__\<close>) and \<open>~\<close> (\<open>__invert__\<close>), and the literal \<open>false\<close>.\<close>

definition false :: formula where
  "false = PrimitiveProposition [CHR 0xE2, CHR 0x8A, CHR 0xA5]"

definition gt :: "formula \<Rightarrow> formula \<Rightarrow> formula" where
  "gt self other = Proposition self other"

definition invert :: "formula \<Rightarrow> formula" where
  "invert self = gt self false"

section \<open>Lists and sets of formulas\<close>

text \<open>
  \<open>x in xs\<close> holds when some element \<open>e\<close> of \<open>xs\<close> satisfies \<open>e == x\<close>; \<open>xs.index(x)\<close> is
  the position of the first such element and raises when there is none (\<open>None\<close> here).
  A Python set is modelled by the list of its elements in iteration order; membership in
  a set compares hashes and then uses \<open>==\<close>, which is the same test.
\<close>

definition py_in :: "(string \<Rightarrow> 'h) \<Rightarrow> formula \<Rightarrow> formula list \<Rightarrow> bool" where
  "py_in h x xs = list_ex (\<lambda>e. prop_eq h e x) xs"

fun list_index :: "(string \<Rightarrow> 'h) \<Rightarrow> formula list \<Rightarrow> formula \<Rightarrow> nat option" where
  "list_index h [] x = None"
| "list_index h (e # es) x =
     (if prop_eq h e x then Some 0 else map_option Suc (list_index h es x))"

text \<open>\<open>str(n)\<close> for a natural number: its decimal digits.\<close>

fun str_nat :: "nat \<Rightarrow> string" where
  "str_nat n =
     (if n < 10 then [char_of (48 + n)]
      else str_nat (n div 10) @ [char_of (48 + n mod 10)])"

declare str_nat.simps [simp del]

section \<open>Proofs (propositions.py, class Proof)\<close>

record Proof =
  "premises" :: "formula list"
  lines :: "formula list"
  applications :: "string list"

datatype error = ValueError string

text \<open>The constructor: \<open>lines = list(premises)\<close>, one \<open>"(premise)"\<close> for each premise.\<close>

definition init :: "formula list \<Rightarrow> Proof" where
  "init ps =
     \<lparr>premises = ps, lines = ps, applications = map (\<lambda>_. ''(premise)'') ps\<rparr>"

definition axiom_1 :: "Proof \<Rightarrow> formula \<Rightarrow> formula \<Rightarrow> Proof" where
  "axiom_1 self p q =
     self\<lparr>lines := lines self @ [gt p (gt q p)],
          applications := applications self @ [''(A1)'']\<rparr>"

definition axiom_2 :: "Proof \<Rightarrow> formula \<Rightarrow> formula \<Rightarrow> formula \<Rightarrow> Proof" where
  "axiom_2 self p q r =
     self\<lparr>lines := lines self @ [gt (gt p (gt q r)) (gt (gt p q) (gt p r))],
          applications := applications self @ [''(A2)'']\<rparr>"

definition axiom_3 :: "Proof \<Rightarrow> formula \<Rightarrow> Proof" where
  "axiom_3 self p =
     self\<lparr>lines := lines self @ [gt (invert (invert p)) p],
          applications := applications self @ [''(A3)'']\<rparr>"

text \<open>
  \<open>modus_ponens\<close> returns the exception raised, if any, and the proof object as the call
  leaves it. The two \<open>index\<close> calls run after the new line is appended; if one of them
  raised, the line would stay without its application.
\<close>

definition antecedent_msg :: "formula \<Rightarrow> string" where
  "antecedent_msg p =
     ''Antecedent '' @ name p @ '' has not been proven: unable to apply modus ponens''"

definition implication_msg :: "formula \<Rightarrow> string" where
  "implication_msg pq =
     ''Implication '' @ name pq @ '' has not been proven: unable to apply modus ponens''"

definition index_msg :: string where
  "index_msg = ''list.index(x): x not in list''"

definition mp_application :: "nat \<Rightarrow> nat \<Rightarrow> string" where
  "mp_application i j = ''(MP '' @ str_nat (i + 1) @ '', '' @ str_nat (j + 1) @ '')''"

definition modus_ponens ::
  "(string \<Rightarrow> 'h) \<Rightarrow> Proof \<Rightarrow> formula \<Rightarrow> formula \<Rightarrow> error option \<times> Proof" where
  "modus_ponens h self p q =
     (if \<not> py_in h p (lines self) then (Some (ValueError (antecedent_msg p)), self)
      else if \<not> py_in h (gt p q) (lines self)
        then (Some (ValueError (implication_msg (gt p q))), self)
      else
        let self1 = self\<lparr>lines := lines self @ [q]\<rparr> in
        case list_index h (lines self1) p of
          None \<Rightarrow> (Some (ValueError index_msg), self1)
        | Some i \<Rightarrow>
           (case list_index h (lines self1) (gt p q) of
              None \<Rightarrow> (Some (ValueError index_msg), self1)
            | Some j \<Rightarrow>
               (None, self1\<lparr>applications := applications self1 @ [mp_application i j]\<rparr>)))"

section \<open>The Deduction Theorem (deduction.py, use_deduction_theorem)\<close>

text \<open>
  Proof objects are mutable and held by reference: the store is the list of the objects
  allocated so far and a reference is a position in it. \<open>Proof(premises)\<close> allocates a
  new object behind the existing ones.
\<close>

type_synonym heap = "Proof list"

definition new_Proof :: "heap \<Rightarrow> formula list \<Rightarrow> nat \<times> heap" where
  "new_Proof H ps = (length H, H @ [init ps])"

text \<open>Running the next call on an object unless an exception is already on its way.\<close>

definition seq ::
  "error option \<times> Proof \<Rightarrow> (Proof \<Rightarrow> error option \<times> Proof) \<Rightarrow> error option \<times> Proof" where
  "seq r f = (case r of (None, s) \<Rightarrow> f s | (Some e, s) \<Rightarrow> (Some e, s))"

text \<open>
  Case 4's scan: \<open>product(proof.lines, repeat=2)\<close> enumerates the pairs with the first
  component in the outer loop; the loop stops at the first pair with \<open>tk == (tj > line)\<close>.
\<close>

definition find_pair ::
  "(string \<Rightarrow> 'h) \<Rightarrow> formula list \<Rightarrow> formula \<Rightarrow> (formula \<times> formula) option" where
  "find_pair h ls line = find (\<lambda>(tj, tk). prop_eq h tk (gt tj line)) (List.product ls ls)"

definition premise_msg :: "formula \<Rightarrow> string" where
  "premise_msg premise = ''`'' @ name premise @ ''` is not a premise of the proof''"

definition scan_msg :: "formula \<Rightarrow> string" where
  "scan_msg line = ''Unable to find the antecedent of '' @ name line"

text \<open>
  The body of the loop: what one line of the original proof (read through
  \<open>original\<close>) adds to the object \<open>new_proof\<close>.
\<close>

definition transform_line ::
  "(string \<Rightarrow> 'h) \<Rightarrow> Proof \<Rightarrow> formula \<Rightarrow> formula \<Rightarrow> string \<Rightarrow> Proof \<Rightarrow> error option \<times> Proof" where
  "transform_line h original premise line application new_proof =
     (let p = premise in
      if prop_eq h line premise then
        seq (modus_ponens h (axiom_2 (axiom_1 new_proof p (gt p p)) p (gt p p) p)
               (gt p (gt (gt p p) p)) (gt (gt p (gt p p)) (gt p p)))
            (\<lambda>s. modus_ponens h (axiom_1 s p p) (gt p (gt p p)) (gt p p))
      else if py_in h line (premises original) then
        modus_ponens h (axiom_1 new_proof line p) line (gt p line)
      else if take 2 application = ''(A'' then
        modus_ponens h
          (axiom_1 (new_proof\<lparr>lines := lines new_proof @ [line],
                             applications := applications new_proof @ [application]\<rparr>) line p)
          line (gt p line)
      else
        (case find_pair h (lines original) line of
           None \<Rightarrow> (Some (ValueError (scan_msg line)), new_proof)
         | Some (tj, tk) \<Rightarrow>
            seq (modus_ponens h (axiom_2 new_proof p tj line)
                   (gt p tk) (gt (gt p tj) (gt p line)))
                (\<lambda>s. modus_ponens h s (gt p tj) (gt p line))))"

text \<open>
  The loop over \<open>zip(proof.lines, proof.applications)\<close>. Each round reads the original
  proof through its reference and writes the new proof back through its own.
\<close>

fun transform_loop ::
  "(string \<Rightarrow> 'h) \<Rightarrow> nat \<Rightarrow> nat \<Rightarrow> formula \<Rightarrow> (formula \<times> string) list \<Rightarrow> heap
     \<Rightarrow> error option \<times> heap" where
  "transform_loop h original new_proof premise [] H = (None, H)"
| "transform_loop h original new_proof premise ((line, application) # rest) H =
     (case transform_line h (H ! original) premise line application (H ! new_proof) of
        (Some e, s) \<Rightarrow> (Some e, H[new_proof := s])
      | (None, s) \<Rightarrow> transform_loop h original new_proof premise rest (H[new_proof := s]))"

text \<open>
  \<open>use_deduction_theorem(proof, premise)\<close>. The set \<open>proof.premises - {premise}\<close> is a new
  set; the order in which Python iterates over it is the parameter \<open>set_iter\<close>, applied to
  the elements that remain. The result is the exception raised or the reference to the
  new proof, with the store as the call leaves it.
\<close>

definition use_deduction_theorem ::
  "(string \<Rightarrow> 'h) \<Rightarrow> (formula list \<Rightarrow> formula list) \<Rightarrow> heap \<Rightarrow> nat \<Rightarrow> formula
     \<Rightarrow> (error + nat) \<times> heap" where
  "use_deduction_theorem h set_iter H original premise =
     (if \<not> py_in h premise (premises (H ! original))
        then (Inl (ValueError (premise_msg premise)), H)
      else
        let new_premises =
              set_iter (filter (\<lambda>e. \<not> py_in h e [premise]) (premises (H ! original)));
            (new_proof, H1) = new_Proof H new_premises
        in case transform_loop h original new_proof premise
                  (zip (lines (H1 ! original)) (applications (H1 ! original))) H1 of
             (Some e, H2) \<Rightarrow> (Inl e, H2)
           | (None, H2) \<Rightarrow> (Inr new_proof, H2))"

section \<open>Notions used to state the properties\<close>

text \<open>The position of the first element of \<open>xs\<close> that compares equal to \<open>x\<close>.\<close>

definition first_occurrence ::
  "(string \<Rightarrow> 'h) \<Rightarrow> formula list \<Rightarrow> formula \<Rightarrow> nat \<Rightarrow> bool" where
  "first_occurrence h xs x i =
     (i < length xs \<and> prop_eq h (xs ! i) x \<and> (\<forall>j < i. \<not> prop_eq h (xs ! j) x))"

text \<open>The hash does not identify two different strings \<open>s\<close> and \<open>t\<close>.\<close>

definition no_collision :: "(string \<Rightarrow> 'h) \<Rightarrow> string \<Rightarrow> string \<Rightarrow> bool" where
  "no_collision h s t = (h s = h t \<longrightarrow> s = t)"

text \<open>
  Structural equality in the words of the specification: atom names match, or both are
  implications with recursively equal left and right.
\<close>

fun same_structure :: "formula \<Rightarrow> formula \<Rightarrow> bool" where
  "same_structure (PrimitiveProposition m) (PrimitiveProposition n) = (m = n)"
| "same_structure (Proposition l r) (Proposition l' r') =
     (same_structure l l' \<and> same_structure r r')"
| "same_structure (PrimitiveProposition m) (Proposition l' r') = False"
| "same_structure (Proposition l r) (PrimitiveProposition n) = False"

text \<open>Formulas whose atom names contain neither a parenthesis nor a space.\<close>

definition plain_char :: "char \<Rightarrow> bool" where
  "plain_char c = (c \<noteq> CHR ''('' \<and> c \<noteq> CHR '')'' \<and> c \<noteq> CHR '' '')"

fun plain :: "formula \<Rightarrow> bool" where
  "plain (PrimitiveProposition n) = list_all plain_char n"
| "plain (Proposition l r) = (plain l \<and> plain r)"

text \<open>
  The two sequences of a proof are index-aligned; and a proof object \<open>new\<close> comes from
  \<open>old\<close> by appending to both sequences the same number of entries, nothing else changed.
\<close>

definition aligned :: "Proof \<Rightarrow> bool" where
  "aligned s = (length (applications s) = length (lines s))"

definition appends :: "Proof \<Rightarrow> Proof \<Rightarrow> bool" where
  "appends old new =
     (premises new = premises old \<and>
      prefix (lines old) (lines new) \<and>
      prefix (applications old) (applications new) \<and>
      length (lines new) - length (lines old) =
        length (applications new) - length (applications old))"

text \<open>
  The proof objects a client can build with the constructor and the four step
  constructors alone; a call of \<open>modus_ponens\<close> that raises leaves no trace. The set \<open>N\<close>
  collects the canonical texts of the antecedents passed to \<open>modus_ponens\<close>; with
  \<open>N = UNIV\<close> it restricts nothing.
\<close>

inductive api_built :: "string set \<Rightarrow> (string \<Rightarrow> 'h) \<Rightarrow> Proof \<Rightarrow> bool"
  for N :: "string set" and h :: "string \<Rightarrow> 'h" where
  built_init: "api_built N h (init ps)"
| built_axiom_1: "api_built N h s \<Longrightarrow> api_built N h (axiom_1 s a b)"
| built_axiom_2: "api_built N h s \<Longrightarrow> api_built N h (axiom_2 s a b c)"
| built_axiom_3: "api_built N h s \<Longrightarrow> api_built N h (axiom_3 s a)"
| built_modus_ponens:
    "api_built N h s \<Longrightarrow> name a \<in> N \<Longrightarrow> modus_ponens h s a b = (None, s')
       \<Longrightarrow> api_built N h s'"

text \<open>A string is empty or starts with a space or a closing parenthesis.\<close>

definition stops :: "string \<Rightarrow> bool" where
  "stops u = (case u of [] \<Rightarrow> True | c # _ \<Rightarrow> c = CHR '' '' \<or> c = CHR '')'')"

text \<open>
  Some pair of lines \<open>(tj, tk)\<close> satisfies \<open>tk == (tj > line)\<close>; and the property of a
  proof that every line is a premise, carries an axiom's application, or has such a pair.
\<close>

definition has_pair :: "(string \<Rightarrow> 'h) \<Rightarrow> formula list \<Rightarrow> formula \<Rightarrow> bool" where
  "has_pair h ls line = (\<exists>tj \<in> set ls. \<exists>tk \<in> set ls. prop_eq h tk (gt tj line))"

definition case4_ok :: "(string \<Rightarrow> 'h) \<Rightarrow> Proof \<Rightarrow> bool" where
  "case4_ok h s =
     (\<forall>(line, application) \<in> set (zip (lines s) (applications s)).
        line \<in> set (premises s) \<or> take 2 application = ''(A'' \<or>
        has_pair h (lines s) line)"

text \<open>The exceptions that \<open>modus_ponens\<close> raises.\<close>

definition mp_error :: "error \<Rightarrow> bool" where
  "mp_error e =
     (\<exists>x. e = ValueError (antecedent_msg x) \<or> e = ValueError (implication_msg x))"

section \<open>Example proofs\<close>

text \<open>The shorthand propositions of propositions.py.\<close>

definition atom_p :: formula where "atom_p = PrimitiveProposition ''p''"
definition atom_q :: formula where "atom_q = PrimitiveProposition ''q''"
definition atom_r :: formula where "atom_r = PrimitiveProposition ''r''"

text \<open>A proof with the premise \<open>p\<close> and the line \<open>(p => (q => p))\<close>.\<close>

definition mp_ready :: Proof where
  "mp_ready = axiom_1 (init [atom_p]) atom_p atom_q"

text \<open>
  The test at the end of deduction.py: from the premises \<open>p\<close>, \<open>q\<close> and
  \<open>(p => (q => false))\<close>, two applications of modus ponens prove \<open>false\<close>.
\<close>

definition demo_premise :: formula where
  "demo_premise = gt atom_p (gt atom_q false)"

definition demo_proof :: Proof where
  "demo_proof =
     snd (modus_ponens (\<lambda>n. n)
            (snd (modus_ponens (\<lambda>n. n) (init [atom_p, atom_q, demo_premise])
                    atom_p (gt atom_q false)))
            atom_q false)"

text \<open>
  A proof of \<open>(p => (q => (q => (r => q))))\<close> from the premise \<open>p\<close>, built with the step
  constructors: two instances of the first axiom, modus ponens on them, one more instance
  of the first axiom and modus ponens again.
\<close>

definition late_a :: formula where
  "late_a = gt atom_q (gt atom_r atom_q)"

definition late_t :: formula where
  "late_t = gt atom_q late_a"

definition late_pair_proof :: Proof where
  "late_pair_proof =
     snd (modus_ponens (\<lambda>n. n)
            (axiom_1
               (snd (modus_ponens (\<lambda>n. n)
                       (axiom_1 (axiom_1 (init [atom_p]) atom_q atom_r) late_a atom_q)
                       late_a late_t))
               late_t atom_p)
            late_t (gt atom_p late_t))"

text \<open>A proof without premises: two instances of the first axiom.\<close>

definition no_premise_proof :: Proof where
  "no_premise_proof = axiom_1 (axiom_1 (init []) atom_p atom_q) atom_q atom_p"

text \<open>
  A hash that sends the name \<open>s\<close> where it sends the name \<open>p\<close> and collides nowhere
  else, and a proof built under it: from the premises \<open>s\<close> and \<open>(p => q)\<close>,
  \<open>modus_ponens(p, q)\<close> finds \<open>p\<close> in the line \<open>s\<close>.
\<close>

definition colliding_hash :: "string \<Rightarrow> string" where
  "colliding_hash n = (if n = ''s'' then ''p'' else n)"

definition atom_s :: formula where "atom_s = PrimitiveProposition ''s''"

definition collision_proof :: Proof where
  "collision_proof =
     snd (modus_ponens colliding_hash (init [atom_s, gt atom_p atom_q]) atom_p atom_q)"

text \<open>
  A proof object assembled by hand, not through the step constructors: its second line
  claims modus ponens, and no line is an implication.
\<close>

definition forged_proof :: Proof where
  "forged_proof =
     \<lparr>premises = [atom_p], lines = [atom_p, atom_q],
      applications = [''(premise)'', ''(MP 1, 1)'']\<rparr>"

section \<open>Equality of formulas\<close>

lemma prop_eq_iff: "prop_eq h a b \<longleftrightarrow> h (name a) = h (name b)"
  by (simp add: prop_eq_def dunder_eq_def)

lemma prop_eq_refl: "prop_eq h a a"
  by (simp add: prop_eq_iff)

lemma same_structure_eq: "same_structure a b \<longleftrightarrow> a = b"
  by (induction a b rule: same_structure.induct) auto

text \<open>
  Claim C10: \<open>a == other\<close> holds exactly when \<open>hash(a.name)\<close> equals the hash of \<open>other\<close>.
  Formulas with the same canonical text are equal; formulas with different canonical
  texts whose hashes collide are equal too; and a formula is equal to any object
  whatsoever with the same hash value.
\<close>

theorem equality_by_hash:
  "(dunder_eq h a other \<longleftrightarrow> h (name a) = obj_hash h other) \<and>
   (prop_eq h a b \<longleftrightarrow> h (name a) = h (name b)) \<and>
   (name a = name b \<longrightarrow> prop_eq h a b) \<and>
   (name a \<noteq> name b \<and> h (name a) = h (name b) \<longrightarrow> prop_eq h a b) \<and>
   (obj_hash h other = h (name a) \<longrightarrow> dunder_eq h a other)"
  by (auto simp: prop_eq_def dunder_eq_def)

text \<open>
  With the length of the name as the hash, \<open>p\<close> and \<open>q\<close> collide and compare equal, and
  \<open>p\<close> compares equal to an object that is not a formula and hashes to 1.
\<close>

theorem equality_by_hash_witness:
  "name atom_p \<noteq> name atom_q \<and> length (name atom_p) = length (name atom_q) \<and>
   prop_eq length atom_p atom_q \<and>
   obj_hash length (Hashable 1) = length (name atom_p) \<and>
   dunder_eq length atom_p (Hashable 1)"
proof -
  have c: "name atom_p \<noteq> name atom_q \<and> length (name atom_p) = length (name atom_q)"
    by (simp add: atom_p_def atom_q_def)
  have o: "obj_hash length (Hashable 1) = length (name atom_p)"
    by (simp add: atom_p_def)
  from c o equality_by_hash [of length atom_p "Hashable 1" atom_q]
  show ?thesis by blast
qed

subsection \<open>Canonical texts and structure\<close>

lemma plain_text_split:
  "list_all plain_char n \<Longrightarrow> list_all plain_char m \<Longrightarrow> stops u \<Longrightarrow> stops v \<Longrightarrow>
     n @ u = m @ v \<Longrightarrow> n = m \<and> u = v"
proof (induction n arbitrary: m)
  case Nil
  then show ?case by (cases m) (auto simp: stops_def plain_char_def)
next
  case (Cons c n)
  then show ?case by (cases m) (auto simp: stops_def plain_char_def)
qed

text \<open>
  The canonical text of a plain formula can be read in one way only, whatever follows it
  behind a space or a closing parenthesis.
\<close>

lemma name_unique_prefix:
  "plain a \<Longrightarrow> plain b \<Longrightarrow> stops u \<Longrightarrow> stops v \<Longrightarrow> name a @ u = name b @ v
     \<Longrightarrow> a = b \<and> u = v"
proof (induction a arbitrary: b u v)
  case (PrimitiveProposition n)
  show ?case
  proof (cases b)
    case (PrimitiveProposition m)
    with PrimitiveProposition.prems show ?thesis
      using plain_text_split [of n m u v] by simp
  next
    case (Proposition l r)
    with PrimitiveProposition.prems show ?thesis
      by (cases n) (auto simp: stops_def plain_char_def)
  qed
next
  case (Proposition l r)
  show ?case
  proof (cases b)
    case (PrimitiveProposition m)
    with Proposition.prems show ?thesis
      by (cases m) (auto simp: stops_def plain_char_def)
  next
    case b: (Proposition l' r')
    from Proposition.prems b
    have eq: "name l @ ('' => '' @ name r @ '')'' @ u) =
              name l' @ ('' => '' @ name r' @ '')'' @ v)"
      by simp
    have pl: "plain l" "plain l'" "plain r" "plain r'"
      using Proposition.prems b by simp_all
    have "l = l' \<and> '' => '' @ name r @ '')'' @ u = '' => '' @ name r' @ '')'' @ v"
      by (rule Proposition.IH(1) [OF pl(1) pl(2) _ _ eq]) (simp_all add: stops_def)
    then have l: "l = l'" and eq2: "name r @ ('')'' @ u) = name r' @ ('')'' @ v)"
      by simp_all
    have "r = r' \<and> '')'' @ u = '')'' @ v"
      by (rule Proposition.IH(2) [OF pl(3) pl(4) _ _ eq2]) (simp_all add: stops_def)
    with l b show ?thesis by simp
  qed
qed

lemma name_inj_plain: "plain a \<Longrightarrow> plain b \<Longrightarrow> name a = name b \<longleftrightarrow> a = b"
  using name_unique_prefix [of a b "[]" "[]"] by (auto simp: stops_def)

text \<open>
  Claim C2, as amended: formulas with the same canonical text are equal, and where the
  hash does not collide on the two canonical texts, \<open>a == b\<close> holds exactly when the
  texts are the same string. For formulas whose atom names contain no parenthesis and no
  space, the texts are the same exactly when the atom names match or both are
  implications with recursively equal sides; for such formulas with \<open>a != b\<close>, and no
  collision between the texts of the two implications, \<open>(a => b) != (b => a)\<close>.
\<close>

theorem structural_equality_amended:
  "(name a = name b \<longrightarrow> prop_eq h a b) \<and>
   (no_collision h (name a) (name b) \<longrightarrow> (prop_eq h a b \<longleftrightarrow> name a = name b)) \<and>
   (plain a \<and> plain b \<longrightarrow> (name a = name b \<longleftrightarrow> same_structure a b)) \<and>
   (plain a \<and> plain b \<and> prop_ne h a b \<and>
    no_collision h (name (Proposition a b)) (name (Proposition b a)) \<longrightarrow>
      prop_ne h (Proposition a b) (Proposition b a))"
proof (intro conjI impI)
  show "prop_eq h a b" if "name a = name b"
    using that by (simp add: prop_eq_iff)
  show "prop_eq h a b \<longleftrightarrow> name a = name b" if "no_collision h (name a) (name b)"
    using that by (auto simp: prop_eq_iff no_collision_def)
  show "name a = name b \<longleftrightarrow> same_structure a b" if "plain a \<and> plain b"
    using that by (simp add: name_inj_plain same_structure_eq)
  show "prop_ne h (Proposition a b) (Proposition b a)"
    if H: "plain a \<and> plain b \<and> prop_ne h a b \<and>
       no_collision h (name (Proposition a b)) (name (Proposition b a))"
  proof -
    from H have "a \<noteq> b" by (auto simp: prop_ne_def prop_eq_iff)
    then have "Proposition a b \<noteq> Proposition b a" by simp
    moreover have "plain (Proposition a b)" "plain (Proposition b a)" using H by simp_all
    ultimately have "name (Proposition a b) \<noteq> name (Proposition b a)"
      using name_inj_plain by blast
    with H show ?thesis
      unfolding prop_ne_def prop_eq_iff no_collision_def by blast
  qed
qed

theorem structural_equality_amended_witness:
  "plain atom_p \<and> plain atom_q \<and> prop_ne (\<lambda>n. n) atom_p atom_q \<and>
   no_collision (\<lambda>n. n) (name atom_p) (name atom_q) \<and>
   no_collision (\<lambda>n. n) (name (Proposition atom_p atom_q)) (name (Proposition atom_q atom_p)) \<and>
   (prop_eq (\<lambda>n. n) atom_p atom_q \<longleftrightarrow> name atom_p = name atom_q) \<and>
   (name atom_p = name atom_q \<longleftrightarrow> same_structure atom_p atom_q) \<and>
   prop_ne (\<lambda>n. n) (Proposition atom_p atom_q) (Proposition atom_q atom_p) \<and>
   name (Proposition atom_p atom_q) = name (PrimitiveProposition ''(p => q)'') \<and>
   prop_eq (\<lambda>n. n) (Proposition atom_p atom_q) (PrimitiveProposition ''(p => q)'')"
proof -
  have hyps: "plain atom_p \<and> plain atom_q \<and> prop_ne (\<lambda>n. n) atom_p atom_q \<and>
      no_collision (\<lambda>n. n) (name atom_p) (name atom_q) \<and>
      no_collision (\<lambda>n. n) (name (Proposition atom_p atom_q))
        (name (Proposition atom_q atom_p))"
    by (simp add: atom_p_def atom_q_def plain_char_def prop_ne_def prop_eq_iff
        no_collision_def)
  have same: "name (Proposition atom_p atom_q) = name (PrimitiveProposition ''(p => q)'')"
    by (simp add: atom_p_def atom_q_def)
  from hyps same
    structural_equality_amended [of atom_p atom_q "\<lambda>n. n"]
    structural_equality_amended
      [of "Proposition atom_p atom_q" "PrimitiveProposition ''(p => q)''" "\<lambda>n. n"]
  show ?thesis by blast
qed

text \<open>
  Claim C2 fails as stated. Under every hash the atom named \<open>(p => q)\<close> equals the
  implication of \<open>p\<close> and \<open>q\<close>, though one is an atom and the other an implication; and
  with \<open>a\<close> the atom \<open>x\<close> and \<open>b\<close> the atom \<open>x => x\<close>, which differ under a hash without
  collisions, \<open>(a => b)\<close> equals \<open>(b => a)\<close>: both have the text \<open>(x => x => x)\<close>.
\<close>

theorem structural_equality_counterexample:
  "(\<forall>h :: string \<Rightarrow> int.
      prop_eq h (PrimitiveProposition ''(p => q)'')
        (Proposition (PrimitiveProposition ''p'') (PrimitiveProposition ''q'')) \<and>
      prop_eq h
        (Proposition (PrimitiveProposition ''x'') (PrimitiveProposition ''x => x''))
        (Proposition (PrimitiveProposition ''x => x'') (PrimitiveProposition ''x''))) \<and>
   \<not> same_structure (PrimitiveProposition ''(p => q)'')
        (Proposition (PrimitiveProposition ''p'') (PrimitiveProposition ''q'')) \<and>
   prop_ne (\<lambda>n. n) (PrimitiveProposition ''x'') (PrimitiveProposition ''x => x'')"
  by (simp add: prop_eq_iff prop_ne_def)

section \<open>The step constructors\<close>

lemma py_in_iff: "py_in h x xs \<longleftrightarrow> (\<exists>e \<in> set xs. prop_eq h e x)"
  by (simp add: py_in_def list_ex_iff)

lemma list_index_first:
  "py_in h x xs \<Longrightarrow> \<exists>i. list_index h xs x = Some i \<and> first_occurrence h xs x i"
proof (induction xs)
  case Nil
  then show ?case by (simp add: py_in_iff)
next
  case (Cons e es)
  show ?case
  proof (cases "prop_eq h e x")
    case True
    then show ?thesis by (simp add: first_occurrence_def)
  next
    case False
    with Cons.prems have "py_in h x es" by (simp add: py_in_iff)
    then obtain i where i: "list_index h es x = Some i" "first_occurrence h es x i"
      using Cons.IH by blast
    have "first_occurrence h (e # es) x (Suc i)"
      using i(2) False by (auto simp: first_occurrence_def less_Suc_eq_0_disj)
    with i(1) False show ?thesis by simp
  qed
qed

text \<open>Appending the new line does not move the first occurrence of a line already there.\<close>

lemma list_index_append:
  "py_in h x xs \<Longrightarrow> list_index h (xs @ ys) x = list_index h xs x"
proof (induction xs)
  case Nil
  then show ?case by (simp add: py_in_iff)
next
  case (Cons e es)
  show ?case
  proof (cases "prop_eq h e x")
    case True
    then show ?thesis by simp
  next
    case False
    with Cons.prems have "py_in h x es" by (simp add: py_in_iff)
    with Cons.IH False show ?thesis by simp
  qed
qed

lemma modus_ponens_success:
  assumes "py_in h a (lines self)" "py_in h (gt a b) (lines self)"
  shows "\<exists>i j. first_occurrence h (lines self) a i \<and>
     first_occurrence h (lines self) (gt a b) j \<and>
     modus_ponens h self a b =
       (None, self\<lparr>lines := lines self @ [b],
                   applications := applications self @ [mp_application i j]\<rparr>)"
proof -
  obtain i where i: "list_index h (lines self) a = Some i" "first_occurrence h (lines self) a i"
    using list_index_first [OF assms(1)] by blast
  obtain j where j: "list_index h (lines self) (gt a b) = Some j"
      "first_occurrence h (lines self) (gt a b) j"
    using list_index_first [OF assms(2)] by blast
  have "modus_ponens h self a b =
       (None, self\<lparr>lines := lines self @ [b],
                   applications := applications self @ [mp_application i j]\<rparr>)"
    using assms i(1) j(1) by (simp add: modus_ponens_def list_index_append)
  with i(2) j(2) show ?thesis by blast
qed

lemma modus_ponens_fail_a:
  "\<not> py_in h a (lines self) \<Longrightarrow>
     modus_ponens h self a b = (Some (ValueError (antecedent_msg a)), self)"
  by (simp add: modus_ponens_def)

lemma modus_ponens_fail_ab:
  "py_in h a (lines self) \<Longrightarrow> \<not> py_in h (gt a b) (lines self) \<Longrightarrow>
     modus_ponens h self a b = (Some (ValueError (implication_msg (gt a b))), self)"
  by (simp add: modus_ponens_def)

text \<open>The three ways a call of \<open>modus_ponens\<close> can end.\<close>

lemma modus_ponens_cases:
  obtains (no_a) "\<not> py_in h a (lines self)"
      "modus_ponens h self a b = (Some (ValueError (antecedent_msg a)), self)"
  | (no_ab) "py_in h a (lines self)" "\<not> py_in h (gt a b) (lines self)"
      "modus_ponens h self a b = (Some (ValueError (implication_msg (gt a b))), self)"
  | (ok) i j where "py_in h a (lines self)" "py_in h (gt a b) (lines self)"
      "first_occurrence h (lines self) a i" "first_occurrence h (lines self) (gt a b) j"
      "modus_ponens h self a b =
         (None, self\<lparr>lines := lines self @ [b],
                     applications := applications self @ [mp_application i j]\<rparr>)"
  using modus_ponens_fail_a modus_ponens_fail_ab modus_ponens_success by blast

text \<open>
  Claim C5: the three axiom constructors have no failing branch; each appends one line,
  the instance of its schema, and the application of that schema: \<open>(a => (b => a))\<close>
  with \<open>(A1)\<close>, \<open>((a => (b => c)) => ((a => b) => (a => c)))\<close> with \<open>(A2)\<close>, and
  \<open>(((a => false) => false) => a)\<close> with \<open>(A3)\<close>.
\<close>

theorem axioms_total:
  "axiom_1 self a b =
     self\<lparr>lines := lines self @ [Proposition a (Proposition b a)],
          applications := applications self @ [''(A1)'']\<rparr> \<and>
   axiom_2 self a b c =
     self\<lparr>lines := lines self @
            [Proposition (Proposition a (Proposition b c))
               (Proposition (Proposition a b) (Proposition a c))],
          applications := applications self @ [''(A2)'']\<rparr> \<and>
   axiom_3 self a =
     self\<lparr>lines := lines self @
            [Proposition (Proposition (Proposition a false) false) a],
          applications := applications self @ [''(A3)'']\<rparr>"
  by (simp add: axiom_1_def axiom_2_def axiom_3_def gt_def invert_def)

theorem axioms_total_witness:
  "lines (axiom_1 (init []) atom_p atom_q) = [Proposition atom_p (Proposition atom_q atom_p)] \<and>
   applications (axiom_2 (init []) atom_p atom_q atom_r) = [''(A2)''] \<and>
   map name (lines (axiom_3 (init []) atom_p)) =
     [''(((p => '' @ name false @ '') => '' @ name false @ '') => p)'']"
  using axioms_total [of "init []" atom_p atom_q atom_r]
  by (simp add: init_def atom_p_def)

text \<open>
  Claim C3: \<open>modus_ponens(a, b)\<close> succeeds exactly when \<open>a\<close> and \<open>(a => b)\<close> are both
  among the lines; it then appends \<open>b\<close> as the last line, with the application
  \<open>(MP i, j)\<close> where \<open>i\<close> and \<open>j\<close> are the 1-based positions of the first occurrence of
  \<open>a\<close> and of \<open>(a => b)\<close> in the lines.
\<close>

theorem modus_ponens_sound:
  "(fst (modus_ponens h self a b) = None \<longleftrightarrow>
      py_in h a (lines self) \<and> py_in h (Proposition a b) (lines self)) \<and>
   (fst (modus_ponens h self a b) = None \<longrightarrow>
      (\<exists>i j. first_occurrence h (lines self) a i \<and>
             first_occurrence h (lines self) (Proposition a b) j \<and>
             snd (modus_ponens h self a b) =
               self\<lparr>lines := lines self @ [b],
                    applications := applications self @
                      [''(MP '' @ str_nat (i + 1) @ '', '' @ str_nat (j + 1) @ '')'']\<rparr>))"
  by (rule modus_ponens_cases [of h a self b])
     (auto simp: gt_def mp_application_def)

theorem modus_ponens_sound_witness:
  "py_in (\<lambda>n. n) atom_p (lines mp_ready) \<and>
   py_in (\<lambda>n. n) (Proposition atom_p (Proposition atom_q atom_p)) (lines mp_ready) \<and>
   fst (modus_ponens (\<lambda>n. n) mp_ready atom_p (Proposition atom_q atom_p)) = None \<and>
   (\<exists>i j. first_occurrence (\<lambda>n. n) (lines mp_ready) atom_p i \<and>
      first_occurrence (\<lambda>n. n) (lines mp_ready)
        (Proposition atom_p (Proposition atom_q atom_p)) j \<and>
      snd (modus_ponens (\<lambda>n. n) mp_ready atom_p (Proposition atom_q atom_p)) =
        mp_ready\<lparr>lines := lines mp_ready @ [Proposition atom_q atom_p],
          applications := applications mp_ready @
            [''(MP '' @ str_nat (i + 1) @ '', '' @ str_nat (j + 1) @ '')'']\<rparr>) \<and>
   snd (modus_ponens (\<lambda>n. n) mp_ready atom_p (Proposition atom_q atom_p)) =
     \<lparr>premises = [atom_p],
      lines = [atom_p, Proposition atom_p (Proposition atom_q atom_p),
               Proposition atom_q atom_p],
      applications = [''(premise)'', ''(A1)'', ''(MP 1, 2)'']\<rparr>"
proof -
  have ins: "py_in (\<lambda>n. n) atom_p (lines mp_ready) \<and>
      py_in (\<lambda>n. n) (Proposition atom_p (Proposition atom_q atom_p)) (lines mp_ready)"
    by code_simp
  have run: "snd (modus_ponens (\<lambda>n. n) mp_ready atom_p (Proposition atom_q atom_p)) =
     \<lparr>premises = [atom_p],
      lines = [atom_p, Proposition atom_p (Proposition atom_q atom_p),
               Proposition atom_q atom_p],
      applications = [''(premise)'', ''(A1)'', ''(MP 1, 2)'']\<rparr>"
    by code_simp
  from ins run
    modus_ponens_sound [of "\<lambda>n. n" mp_ready atom_p "Proposition atom_q atom_p"]
  show ?thesis by blast
qed

text \<open>
  Claim C4: when \<open>a\<close> is not among the lines, \<open>modus_ponens(a, b)\<close> raises the error that
  names \<open>a\<close> as the unproven antecedent; when \<open>a\<close> is there and \<open>(a => b)\<close> is not, it
  raises the error that names \<open>(a => b)\<close> as the unproven implication; and whenever it
  raises, the proof object is what it was before the call.
\<close>

theorem modus_ponens_failure:
  "(\<not> py_in h a (lines self) \<longrightarrow>
      modus_ponens h self a b =
        (Some (ValueError
           (''Antecedent '' @ name a @ '' has not been proven: unable to apply modus ponens'')),
         self)) \<and>
   (py_in h a (lines self) \<and> \<not> py_in h (Proposition a b) (lines self) \<longrightarrow>
      modus_ponens h self a b =
        (Some (ValueError
           (''Implication '' @ name (Proposition a b) @
            '' has not been proven: unable to apply modus ponens'')),
         self)) \<and>
   (fst (modus_ponens h self a b) \<noteq> None \<longrightarrow> snd (modus_ponens h self a b) = self)"
  by (rule modus_ponens_cases [of h a self b])
     (auto simp: gt_def antecedent_msg_def implication_msg_def)

text \<open>
  On a fresh proof with the premise \<open>p\<close>: \<open>modus_ponens(p, q)\<close> misses \<open>(p => q)\<close> and
  \<open>modus_ponens(q, p)\<close> misses \<open>q\<close>; the proof stays as constructed.
\<close>

theorem modus_ponens_failure_witness:
  "py_in (\<lambda>n. n) atom_p (lines (init [atom_p])) \<and>
   \<not> py_in (\<lambda>n. n) (Proposition atom_p atom_q) (lines (init [atom_p])) \<and>
   modus_ponens (\<lambda>n. n) (init [atom_p]) atom_p atom_q =
     (Some (ValueError
        ''Implication (p => q) has not been proven: unable to apply modus ponens''),
      init [atom_p]) \<and>
   \<not> py_in (\<lambda>n. n) atom_q (lines (init [atom_p])) \<and>
   modus_ponens (\<lambda>n. n) (init [atom_p]) atom_q atom_p =
     (Some (ValueError ''Antecedent q has not been proven: unable to apply modus ponens''),
      init [atom_p]) \<and>
   fst (modus_ponens (\<lambda>n. n) (init [atom_p]) atom_q atom_p) \<noteq> None \<and>
   snd (modus_ponens (\<lambda>n. n) (init [atom_p]) atom_q atom_p) = init [atom_p]"
proof -
  have ins: "py_in (\<lambda>n. n) atom_p (lines (init [atom_p])) \<and>
      \<not> py_in (\<lambda>n. n) (Proposition atom_p atom_q) (lines (init [atom_p])) \<and>
      \<not> py_in (\<lambda>n. n) atom_q (lines (init [atom_p]))"
    by code_simp
  have names: "name atom_p = ''p''" "name atom_q = ''q''"
    by (simp_all add: atom_p_def atom_q_def)
  from ins
    modus_ponens_failure [of "\<lambda>n. n" atom_p "init [atom_p]" atom_q]
    modus_ponens_failure [of "\<lambda>n. n" atom_q "init [atom_p]" atom_p]
  show ?thesis by (simp add: names)
qed

section \<open>Appending to a proof\<close>

lemma appends_refl: "appends s s"
  by (simp add: appends_def)

lemma appends_trans: "appends s t \<Longrightarrow> appends t u \<Longrightarrow> appends s u"
  unfolding appends_def prefix_def by auto

lemma aligned_appends: "aligned s \<Longrightarrow> appends s t \<Longrightarrow> aligned t"
  unfolding appends_def aligned_def prefix_def by auto

lemma aligned_init: "aligned (init ps)"
  by (simp add: aligned_def init_def)

lemma appends_axiom_1: "appends s (axiom_1 s a b)"
  by (simp add: appends_def axiom_1_def)

lemma appends_axiom_2: "appends s (axiom_2 s a b c)"
  by (simp add: appends_def axiom_2_def)

lemma appends_axiom_3: "appends s (axiom_3 s a)"
  by (simp add: appends_def axiom_3_def)

lemma appends_pair: "appends s (s\<lparr>lines := lines s @ [l], applications := applications s @ [a]\<rparr>)"
  by (simp add: appends_def)

lemma appends_modus_ponens: "appends s (snd (modus_ponens h s a b))"
  by (rule modus_ponens_cases [of h a s b]) (simp_all add: appends_def)

lemma appends_seq:
  assumes "appends s (snd r)" and "\<And>t. appends t (snd (f t))"
  shows "appends s (snd (seq r f))"
proof (cases r)
  case (Pair x t)
  show ?thesis
  proof (cases x)
    case None
    with Pair assms(1) assms(2) [of t] show ?thesis
      by (auto simp: seq_def intro: appends_trans)
  next
    case (Some e)
    with Pair assms(1) show ?thesis by (simp add: seq_def)
  qed
qed

lemma appends_modus_ponens_after:
  "appends s t \<Longrightarrow> appends s (snd (modus_ponens h t a b))"
  using appends_modus_ponens appends_trans by blast

lemma appends_transform_line:
  "appends s (snd (transform_line h original premise line application s))"
proof -
  have c1: "appends s (snd (seq (modus_ponens h (axiom_2 (axiom_1 s p (gt p p)) p (gt p p) p) x y)
            (\<lambda>t. modus_ponens h (axiom_1 t p p) x' y')))" for p x y x' y'
    by (intro appends_seq appends_modus_ponens_after)
       (blast intro: appends_trans appends_axiom_1 appends_axiom_2 appends_refl)+
  have c2: "appends s (snd (modus_ponens h (axiom_1 s a b) x y))" for a b x y
    by (intro appends_modus_ponens_after appends_axiom_1)
  have c3: "appends s (snd (modus_ponens h
          (axiom_1 (s\<lparr>lines := lines s @ [l], applications := applications s @ [ap]\<rparr>) a b) x y))"
    for l ap a b x y
    by (intro appends_modus_ponens_after)
       (blast intro: appends_trans appends_axiom_1 appends_pair)
  have c4: "appends s (snd (seq (modus_ponens h (axiom_2 s p a b) x y)
            (\<lambda>t. modus_ponens h t x' y')))" for p a b x y x' y'
    by (intro appends_seq appends_modus_ponens_after appends_axiom_2 appends_refl)
  show ?thesis
    unfolding transform_line_def Let_def
    by (auto simp: c1 c2 c3 c4 appends_refl split: option.split prod.split)
qed

section \<open>The transformer and the store\<close>

text \<open>The loop writes to the new proof only, and only by appending.\<close>

lemma transform_loop_frame:
  "transform_loop h a n premise zs H = (r, H') \<Longrightarrow>
     length H' = length H \<and> (\<forall>k. k \<noteq> n \<longrightarrow> H' ! k = H ! k)"
proof (induction zs arbitrary: H)
  case Nil
  then show ?case by simp
next
  case (Cons z zs)
  obtain line application where z: "z = (line, application)" by (cases z)
  obtain x s where t: "transform_line h (H ! a) premise line application (H ! n) = (x, s)"
    by (cases "transform_line h (H ! a) premise line application (H ! n)")
  show ?case
  proof (cases x)
    case None
    with Cons.prems z t
    have "transform_loop h a n premise zs (H[n := s]) = (r, H')" by simp
    from Cons.IH [OF this] show ?thesis by simp
  next
    case (Some e)
    with Cons.prems z t show ?thesis by auto
  qed
qed

lemma transform_loop_appends:
  "transform_loop h a n premise zs H = (r, H') \<Longrightarrow> n < length H \<Longrightarrow>
     appends (H ! n) (H' ! n)"
proof (induction zs arbitrary: H)
  case Nil
  then show ?case by (simp add: appends_refl)
next
  case (Cons z zs)
  obtain line application where z: "z = (line, application)" by (cases z)
  obtain x s where t: "transform_line h (H ! a) premise line application (H ! n) = (x, s)"
    by (cases "transform_line h (H ! a) premise line application (H ! n)")
  have st: "appends (H ! n) s"
    using appends_transform_line [of "H ! n" h "H ! a" premise line application] t by simp
  show ?case
  proof (cases x)
    case None
    with Cons.prems z t
    have "transform_loop h a n premise zs (H[n := s]) = (r, H')" by simp
    from Cons.IH [OF this] Cons.prems(2) have "appends s (H' ! n)" by simp
    with st show ?thesis by (rule appends_trans)
  next
    case (Some e)
    with Cons.prems z t st show ?thesis by auto
  qed
qed

lemma use_deduction_theorem_cases:
  assumes "use_deduction_theorem h set_iter H original premise = (r, H')"
  obtains (missing) "\<not> py_in h premise (premises (H ! original))"
      "r = Inl (ValueError (premise_msg premise))" "H' = H"
  | (looped) x where "py_in h premise (premises (H ! original))"
      "transform_loop h original (length H) premise
         (zip (lines ((H @ [init (set_iter (filter (\<lambda>e. \<not> py_in h e [premise]) (premises (H ! original))))]) ! original))
              (applications ((H @ [init (set_iter (filter (\<lambda>e. \<not> py_in h e [premise]) (premises (H ! original))))]) ! original)))
         (H @ [init (set_iter (filter (\<lambda>e. \<not> py_in h e [premise]) (premises (H ! original))))]) = (x, H')"
      "r = (case x of None \<Rightarrow> Inr (length H) | Some e \<Rightarrow> Inl e)"
  using assms unfolding use_deduction_theorem_def new_Proof_def Let_def
  by (auto split: if_splits prod.splits option.splits)

text \<open>
  Claim C6: when the formula is not in \<open>proof.premises\<close>, and so for every formula when
  that set is empty, \<open>use_deduction_theorem\<close> raises the error naming it as not a
  premise, and the store is the one before the call: no proof object has been made.
\<close>

theorem missing_premise:
  "(\<not> py_in h premise (premises (H ! original)) \<longrightarrow>
      use_deduction_theorem h set_iter H original premise =
        (Inl (ValueError (''`'' @ name premise @ ''` is not a premise of the proof'')), H)) \<and>
   (premises (H ! original) = [] \<longrightarrow>
      use_deduction_theorem h set_iter H original premise =
        (Inl (ValueError (''`'' @ name premise @ ''` is not a premise of the proof'')), H))"
  by (simp add: use_deduction_theorem_def premise_msg_def py_in_def)

theorem missing_premise_witness:
  "premises ([no_premise_proof] ! 0) = [] \<and>
   \<not> py_in (\<lambda>n. n) atom_p (premises ([no_premise_proof] ! 0)) \<and>
   use_deduction_theorem (\<lambda>n. n) (\<lambda>xs. xs) [no_premise_proof] 0 atom_p =
     (Inl (ValueError ''`p` is not a premise of the proof''), [no_premise_proof])"
proof -
  have e: "premises ([no_premise_proof] ! 0) = []"
    by (simp add: no_premise_proof_def axiom_1_def init_def)
  then have n: "\<not> py_in (\<lambda>n. n) atom_p (premises ([no_premise_proof] ! 0))"
    by (simp add: py_in_def)
  from e n missing_premise [of "\<lambda>n. n" atom_p "[no_premise_proof]" 0 "\<lambda>xs. xs"]
  show ?thesis by (simp add: atom_p_def)
qed

text \<open>
  Claim C8: whether \<open>use_deduction_theorem\<close> returns or raises, every proof object that
  existed before the call, the input proof among them, has the premises, lines and
  applications it had; the proof returned is an object allocated by the call.
\<close>

theorem input_not_mutated:
  assumes "use_deduction_theorem h set_iter H original premise = (r, H')"
  shows "take (length H) H' = H \<and>
         (original < length H \<longrightarrow> H' ! original = H ! original) \<and>
         (\<forall>n. r = Inr n \<longrightarrow> n = length H \<and> length H' = Suc (length H))"
  using assms
proof (cases rule: use_deduction_theorem_cases)
  case missing
  then show ?thesis by simp
next
  case (looped x)
  from transform_loop_frame [OF looped(2)]
  have len: "length H' = Suc (length H)"
    and same: "\<And>k. k < length H \<Longrightarrow> H' ! k = H ! k"
    by (simp_all add: nth_append)
  have "take (length H) H' = H"
    by (rule nth_equalityI) (simp_all add: len same)
  with len same looped(3) show ?thesis by (auto split: option.splits)
qed

text \<open>
  The test of deduction.py returns the new proof and leaves \<open>demo_proof\<close> as it was; on
  \<open>late_pair_proof\<close> the call raises and leaves the input as it was.
\<close>

theorem input_not_mutated_witness:
  "fst (use_deduction_theorem (\<lambda>n. n) (\<lambda>xs. xs) [demo_proof] 0 demo_premise) = Inr 1 \<and>
   take (length [demo_proof])
     (snd (use_deduction_theorem (\<lambda>n. n) (\<lambda>xs. xs) [demo_proof] 0 demo_premise)) =
     [demo_proof] \<and>
   snd (use_deduction_theorem (\<lambda>n. n) (\<lambda>xs. xs) [demo_proof] 0 demo_premise) ! 0 =
     demo_proof \<and>
   length (snd (use_deduction_theorem (\<lambda>n. n) (\<lambda>xs. xs) [demo_proof] 0 demo_premise)) = 2 \<and>
   snd (use_deduction_theorem (\<lambda>n. n) (\<lambda>xs. xs) [late_pair_proof] 0 atom_p) ! 0 =
     late_pair_proof"
proof -
  have r: "fst (use_deduction_theorem (\<lambda>n. n) (\<lambda>xs. xs) [demo_proof] 0 demo_premise) = Inr 1"
    by code_simp
  note demo = input_not_mutated [OF prod.collapse [symmetric],
      where h = "\<lambda>n. n" and set_iter = "\<lambda>xs. xs" and H = "[demo_proof]"
        and original = 0 and premise = demo_premise]
  note late = input_not_mutated [OF prod.collapse [symmetric],
      where h = "\<lambda>n. n" and set_iter = "\<lambda>xs. xs" and H = "[late_pair_proof]"
        and original = 0 and premise = atom_p]
  from demo r
  have "length (snd (use_deduction_theorem (\<lambda>n. n) (\<lambda>xs. xs) [demo_proof] 0 demo_premise)) = 2"
    by simp
  with demo late r show ?thesis by simp
qed

text \<open>
  Claim C9: the constructor makes the two sequences of a proof equally long; the three
  axiom constructors, \<open>modus_ponens\<close> and each round of the transformer (its direct
  appends for an axiom line included) change a proof only by appending to the lines and
  to the applications the same number of entries, which keeps the sequences aligned; and
  every proof object the transformer allocates is aligned when the call ends.
\<close>

theorem append_only_aligned:
  "aligned (init ps) \<and>
   appends self (axiom_1 self a b) \<and>
   appends self (axiom_2 self a b c) \<and>
   appends self (axiom_3 self a) \<and>
   appends self (snd (modus_ponens h self a b)) \<and>
   appends self (snd (transform_line h original premise line application self)) \<and>
   (aligned self \<and> appends self self' \<longrightarrow> aligned self') \<and>
   (use_deduction_theorem h set_iter H ref premise = (r, H') \<longrightarrow>
      (\<forall>k < length H'. length H \<le> k \<longrightarrow> aligned (H' ! k)))"
proof -
  have "aligned (H' ! k)"
    if run: "use_deduction_theorem h set_iter H ref premise = (r, H')"
      and k: "k < length H'" "length H \<le> k" for k
    using run
  proof (cases rule: use_deduction_theorem_cases)
    case missing
    with k show ?thesis by simp
  next
    case (looped x)
    from transform_loop_frame [OF looped(2)] k have "k = length H" by simp
    moreover from transform_loop_appends [OF looped(2)]
    have "appends (init (set_iter (filter (\<lambda>e. \<not> py_in h e [premise]) (premises (H ! ref)))))
            (H' ! length H)"
      by simp
    ultimately show ?thesis using aligned_appends aligned_init by blast
  qed
  then have "use_deduction_theorem h set_iter H ref premise = (r, H') \<longrightarrow>
      (\<forall>k < length H'. length H \<le> k \<longrightarrow> aligned (H' ! k))"
    by blast
  moreover have "aligned self \<and> appends self self' \<longrightarrow> aligned self'"
    using aligned_appends by blast
  ultimately show ?thesis
    by (simp only: aligned_init appends_axiom_1 appends_axiom_2 appends_axiom_3
        appends_modus_ponens appends_transform_line simp_thms)
qed

theorem append_only_aligned_witness:
  "aligned (init [atom_p]) \<and>
   appends mp_ready (axiom_1 mp_ready atom_q atom_p) \<and>
   appends mp_ready (snd (modus_ponens (\<lambda>n. n) mp_ready atom_q atom_p)) \<and>
   appends mp_ready
     (snd (transform_line (\<lambda>n. n) demo_proof demo_premise atom_q ''(A1)'' mp_ready)) \<and>
   aligned mp_ready \<and>
   aligned (axiom_1 mp_ready atom_q atom_p) \<and>
   aligned (snd (use_deduction_theorem (\<lambda>n. n) (\<lambda>xs. xs) [demo_proof] 0 demo_premise) ! 1)"
proof -
  have a: "aligned mp_ready" by code_simp
  have l: "length (snd (use_deduction_theorem (\<lambda>n. n) (\<lambda>xs. xs) [demo_proof] 0 demo_premise)) = 2"
    by code_simp
  have c: "use_deduction_theorem (\<lambda>n. n) (\<lambda>xs. xs) [demo_proof] 0 demo_premise =
      (fst (use_deduction_theorem (\<lambda>n. n) (\<lambda>xs. xs) [demo_proof] 0 demo_premise),
       snd (use_deduction_theorem (\<lambda>n. n) (\<lambda>xs. xs) [demo_proof] 0 demo_premise))"
    by simp
  note t = append_only_aligned [where ps = "[atom_p]" and self = mp_ready and a = atom_q
      and b = atom_p and h = "\<lambda>n. n" and original = demo_proof and premise = demo_premise
      and line = atom_q and application = "''(A1)''"
      and self' = "axiom_1 mp_ready atom_q atom_p" and set_iter = "\<lambda>xs. xs"
      and H = "[demo_proof]" and ref = 0
      and r = "fst (use_deduction_theorem (\<lambda>n. n) (\<lambda>xs. xs) [demo_proof] 0 demo_premise)"
      and H' = "snd (use_deduction_theorem (\<lambda>n. n) (\<lambda>xs. xs) [demo_proof] 0 demo_premise)"]
  from t c l
  have "aligned (snd (use_deduction_theorem (\<lambda>n. n) (\<lambda>xs. xs) [demo_proof] 0 demo_premise) ! 1)"
    by (metis length_Cons list.size(3) One_nat_def lessI numeral_2_eq_2 order_refl)
  with t a show ?thesis by blast
qed

section \<open>Proofs built with the step constructors\<close>

lemma find_pair_None_iff: "find_pair h ls line = None \<longleftrightarrow> \<not> has_pair h ls line"
  by (auto simp: find_pair_def find_None_iff has_pair_def)

lemma has_pair_append: "has_pair h ls line \<Longrightarrow> has_pair h (ls @ ms) line"
  by (auto simp: has_pair_def)

lemma case4_ok_append:
  assumes "case4_ok h s" "aligned s"
    and "l \<in> set (premises s) \<or> take 2 a = ''(A'' \<or> has_pair h (lines s @ [l]) l"
  shows "case4_ok h (s\<lparr>lines := lines s @ [l], applications := applications s @ [a]\<rparr>)"
proof -
  have z: "zip (lines s @ [l]) (applications s @ [a]) = zip (lines s) (applications s) @ [(l, a)]"
    using assms(2) by (simp add: aligned_def)
  have old: "x \<in> set (premises s) \<or> take 2 y = ''(A'' \<or> has_pair h (lines s @ [l]) x"
    if "(x, y) \<in> set (zip (lines s) (applications s))" for x y
    using assms(1) that has_pair_append [of h "lines s" x "[l]"]
    by (fastforce simp: case4_ok_def)
  show ?thesis
    using assms(3) old by (auto simp: case4_ok_def z)
qed

lemma api_built_aligned: "api_built N h s \<Longrightarrow> aligned s"
proof (induction rule: api_built.induct)
  case (built_init ps)
  show ?case by (rule aligned_init)
next
  case (built_modus_ponens s a b s')
  from appends_modus_ponens [of s h a b] built_modus_ponens.hyps(3)
  have "appends s s'" by simp
  with built_modus_ponens.IH show ?case by (rule aligned_appends)
qed (blast intro: aligned_appends appends_axiom_1 appends_axiom_2 appends_axiom_3)+

lemma inj_on_lines_append:
  "inj_on h (N \<union> name ` set (ls @ ms)) \<Longrightarrow> inj_on h (N \<union> name ` set ls)"
  by (rule inj_on_subset) auto

text \<open>
  Where the hash does not collide on the texts of the lines and of the antecedents, the
  line that \<open>modus_ponens\<close> found equal to its antecedent has the antecedent's text, and
  so every line added by \<open>modus_ponens\<close> has its pair.
\<close>

lemma api_built_case4_ok:
  "api_built N h s \<Longrightarrow> inj_on h (N \<union> name ` set (lines s)) \<Longrightarrow> case4_ok h s"
proof (induction rule: api_built.induct)
  case (built_init ps)
  show ?case
    by (auto simp: case4_ok_def init_def dest: set_zip_leftD)
next
  case (built_axiom_1 s a b)
  from built_axiom_1.prems have "inj_on h (N \<union> name ` set (lines s))"
    by (simp add: axiom_1_def inj_on_lines_append)
  with built_axiom_1.IH built_axiom_1.hyps show ?case
    unfolding axiom_1_def by (intro case4_ok_append api_built_aligned) simp_all
next
  case (built_axiom_2 s a b c)
  from built_axiom_2.prems have "inj_on h (N \<union> name ` set (lines s))"
    by (simp add: axiom_2_def inj_on_lines_append)
  with built_axiom_2.IH built_axiom_2.hyps show ?case
    unfolding axiom_2_def by (intro case4_ok_append api_built_aligned) simp_all
next
  case (built_axiom_3 s a)
  from built_axiom_3.prems have "inj_on h (N \<union> name ` set (lines s))"
    by (simp add: axiom_3_def inj_on_lines_append)
  with built_axiom_3.IH built_axiom_3.hyps show ?case
    unfolding axiom_3_def by (intro case4_ok_append api_built_aligned) simp_all
next
  case (built_modus_ponens s a b s')
  show ?case
  proof (rule modus_ponens_cases [of h a s b])
    assume "modus_ponens h s a b = (Some (ValueError (antecedent_msg a)), s)"
    with built_modus_ponens.hyps(3) show ?thesis by simp
  next
    assume "modus_ponens h s a b = (Some (ValueError (implication_msg (gt a b))), s)"
    with built_modus_ponens.hyps(3) show ?thesis by simp
  next
    fix i j
    assume ins: "py_in h a (lines s)" "py_in h (gt a b) (lines s)"
      and res: "modus_ponens h s a b =
         (None, s\<lparr>lines := lines s @ [b],
                  applications := applications s @ [mp_application i j]\<rparr>)"
    from res built_modus_ponens.hyps(3)
    have s': "s' = s\<lparr>lines := lines s @ [b],
                  applications := applications s @ [mp_application i j]\<rparr>"
      by simp
    from built_modus_ponens.prems s'
    have inj: "inj_on h (N \<union> name ` set (lines s))"
      by (simp add: inj_on_lines_append)
    from ins(1) obtain l1 where l1: "l1 \<in> set (lines s)" "prop_eq h l1 a"
      by (auto simp: py_in_iff)
    from ins(2) obtain l2 where l2: "l2 \<in> set (lines s)" "prop_eq h l2 (gt a b)"
      by (auto simp: py_in_iff)
    from l1 built_modus_ponens.hyps(2) inj have "name l1 = name a"
      by (auto simp: prop_eq_iff dest: inj_onD)
    with l2(2) have "prop_eq h l2 (gt l1 b)"
      by (simp add: prop_eq_iff gt_def)
    with l1(1) l2(1) have "has_pair h (lines s @ [b]) b"
      by (auto simp: has_pair_def)
    then have "case4_ok h (s\<lparr>lines := lines s @ [b],
                  applications := applications s @ [mp_application i j]\<rparr>)"
      using built_modus_ponens.IH built_modus_ponens.hyps(1) inj
      by (intro case4_ok_append api_built_aligned) simp_all
    with s' show ?thesis by simp
  qed
qed

lemma api_built_snd_modus_ponens:
  "api_built UNIV h s \<Longrightarrow> fst (modus_ponens h s a b) = None \<Longrightarrow>
     api_built UNIV h (snd (modus_ponens h s a b))"
  by (cases "modus_ponens h s a b") (auto intro: built_modus_ponens)

lemma api_built_demo_proof: "api_built UNIV (\<lambda>n. n) demo_proof"
  unfolding demo_proof_def
  by (intro api_built_snd_modus_ponens built_init) code_simp+

lemma api_built_late_pair_proof: "api_built UNIV (\<lambda>n. n) late_pair_proof"
  unfolding late_pair_proof_def
  by (intro api_built_snd_modus_ponens built_axiom_1 built_init) code_simp+

section \<open>The errors of the transformer\<close>

lemma modus_ponens_error:
  "modus_ponens h s a b = (Some e, s') \<Longrightarrow>
     e = ValueError (antecedent_msg a) \<or> e = ValueError (implication_msg (gt a b))"
  by (rule modus_ponens_cases [of h a s b]) simp_all

lemma mp_error_modus_ponens: "fst (modus_ponens h s a b) = Some e \<Longrightarrow> mp_error e"
  using modus_ponens_error [of h s a b e "snd (modus_ponens h s a b)"]
  by (cases "modus_ponens h s a b") (auto simp: mp_error_def)

lemma mp_error_seq:
  assumes "fst (seq r f) = Some e"
    and "\<And>e. fst r = Some e \<Longrightarrow> mp_error e"
    and "\<And>t e. fst (f t) = Some e \<Longrightarrow> mp_error e"
  shows "mp_error e"
  using assms by (cases r; cases "fst r") (auto simp: seq_def)

lemma mp_error_not_scan: "mp_error e \<Longrightarrow> e \<noteq> ValueError (scan_msg l)"
  by (auto simp: mp_error_def scan_msg_def antecedent_msg_def implication_msg_def)

lemma transform_line_error:
  assumes "fst (transform_line h orig premise line app s) = Some e"
  shows "mp_error e \<or>
    (e = ValueError (scan_msg line) \<and> \<not> prop_eq h line premise \<and>
     \<not> py_in h line (premises orig) \<and> take 2 app \<noteq> ''(A'' \<and>
     find_pair h (lines orig) line = None)"
proof -
  have s2: "mp_error e" if "fst (seq (modus_ponens h t a b) (\<lambda>u. modus_ponens h (g u) c d)) = Some e"
    for t a b g c d
    using that by (rule mp_error_seq) (auto intro: mp_error_modus_ponens)
  show ?thesis
    using assms unfolding transform_line_def Let_def
    by (auto split: if_splits option.splits prod.splits
          dest: mp_error_modus_ponens s2 [where g = "\<lambda>u. u"] s2)
qed

lemma transform_loop_no_scan_error:
  assumes "transform_loop h a n premise zs H = (Some e, H')"
    and "a \<noteq> n"
    and "set zs \<subseteq> set (zip (lines (H ! a)) (applications (H ! a)))"
    and "case4_ok h (H ! a)"
  shows "e \<noteq> ValueError (scan_msg l)"
  using assms
proof (induction zs arbitrary: H)
  case Nil
  then show ?case by simp
next
  case (Cons z zs)
  obtain line application where z: "z = (line, application)" by (cases z)
  obtain x s where t: "transform_line h (H ! a) premise line application (H ! n) = (x, s)"
    by (cases "transform_line h (H ! a) premise line application (H ! n)")
  show ?case
  proof (cases x)
    case None
    with Cons.prems(1) z t
    have run: "transform_loop h a n premise zs (H[n := s]) = (Some e, H')" by simp
    have same: "H[n := s] ! a = H ! a" using Cons.prems(2) by simp
    show ?thesis
      by (rule Cons.IH [OF run Cons.prems(2)]) (use Cons.prems(3,4) same in auto)
  next
    case (Some e')
    with Cons.prems(1) z t have e: "e' = e" by simp
    from t Some e have "fst (transform_line h (H ! a) premise line application (H ! n)) = Some e"
      by simp
    from transform_line_error [OF this] show ?thesis
    proof
      assume "mp_error e"
      then show ?thesis by (rule mp_error_not_scan)
    next
      assume bad: "e = ValueError (scan_msg line) \<and> \<not> prop_eq h line premise \<and>
        \<not> py_in h line (premises (H ! a)) \<and> take 2 application \<noteq> ''(A'' \<and>
        find_pair h (lines (H ! a)) line = None"
      from Cons.prems(3) z
      have "(line, application) \<in> set (zip (lines (H ! a)) (applications (H ! a)))" by simp
      with Cons.prems(4)
      have "line \<in> set (premises (H ! a)) \<or> take 2 application = ''(A'' \<or>
            has_pair h (lines (H ! a)) line"
        by (auto simp: case4_ok_def)
      moreover have "py_in h line (premises (H ! a))" if "line \<in> set (premises (H ! a))"
        using that prop_eq_refl by (auto simp: py_in_iff)
      ultimately have False using bad by (auto simp: find_pair_None_iff)
      then show ?thesis ..
    qed
  qed
qed

text \<open>
  Claim C7, as amended: when the loop reaches a line that is neither the premise, nor in
  the premises, nor marked as an axiom, and no pair \<open>(tj, tk)\<close> of lines of the original
  proof has \<open>tk == (tj > line)\<close>, the transformer raises the error that it is unable to
  find the antecedent of the line. For a proof built with the constructor and the step
  constructors alone, where the hash does not collide on the canonical texts of its lines
  and of the antecedents passed to \<open>modus_ponens\<close>, the transformer never raises it.
\<close>

theorem malformed_input_proof:
  "(\<not> prop_eq h line premise \<and> \<not> py_in h line (premises (H ! original)) \<and>
    take 2 application \<noteq> ''(A'' \<and>
    (\<forall>tj \<in> set (lines (H ! original)). \<forall>tk \<in> set (lines (H ! original)).
        \<not> prop_eq h tk (Proposition tj line)) \<longrightarrow>
      transform_loop h original new_proof premise ((line, application) # rest) H =
        (Some (ValueError (''Unable to find the antecedent of '' @ name line)), H)) \<and>
   (original < length H \<and> api_built N h (H ! original) \<and>
    inj_on h (N \<union> name ` set (lines (H ! original))) \<longrightarrow>
      (\<forall>t. fst (use_deduction_theorem h set_iter H original premise) \<noteq>
            Inl (ValueError (''Unable to find the antecedent of '' @ name t))))"
proof (intro conjI impI allI)
  assume c: "\<not> prop_eq h line premise \<and> \<not> py_in h line (premises (H ! original)) \<and>
    take 2 application \<noteq> ''(A'' \<and>
    (\<forall>tj \<in> set (lines (H ! original)). \<forall>tk \<in> set (lines (H ! original)).
        \<not> prop_eq h tk (Proposition tj line))"
  then have "find_pair h (lines (H ! original)) line = None"
    by (simp add: find_pair_None_iff has_pair_def gt_def)
  with c have "transform_line h (H ! original) premise line application (H ! new_proof) =
      (Some (ValueError (scan_msg line)), H ! new_proof)"
    by (simp add: transform_line_def)
  then show "transform_loop h original new_proof premise ((line, application) # rest) H =
        (Some (ValueError (''Unable to find the antecedent of '' @ name line)), H)"
    by (simp add: scan_msg_def)
next
  fix t
  assume b: "original < length H \<and> api_built N h (H ! original) \<and>
    inj_on h (N \<union> name ` set (lines (H ! original)))"
  obtain r H' where run: "use_deduction_theorem h set_iter H original premise = (r, H')"
    by (cases "use_deduction_theorem h set_iter H original premise")
  from run have "r \<noteq> Inl (ValueError (scan_msg t))"
  proof (cases rule: use_deduction_theorem_cases)
    case missing
    then show ?thesis by (simp add: premise_msg_def scan_msg_def)
  next
    case (looped x)
    show ?thesis
    proof (cases x)
      case None
      with looped(3) show ?thesis by simp
    next
      case (Some e)
      let ?H1 = "H @ [init (set_iter (filter (\<lambda>e. \<not> py_in h e [premise]) (premises (H ! original))))]"
      have o: "?H1 ! original = H ! original" using b by (simp add: nth_append)
      have "e \<noteq> ValueError (scan_msg t)"
      proof (rule transform_loop_no_scan_error)
        show "transform_loop h original (length H) premise
            (zip (lines (?H1 ! original)) (applications (?H1 ! original))) ?H1 = (Some e, H')"
          using looped(2) Some by simp
        show "original \<noteq> length H" using b by simp
        show "set (zip (lines (?H1 ! original)) (applications (?H1 ! original)))
            \<subseteq> set (zip (lines (?H1 ! original)) (applications (?H1 ! original)))" by simp
        from b have "case4_ok h (H ! original)"
          by (blast intro: api_built_case4_ok)
        with o show "case4_ok h (?H1 ! original)" by simp
      qed
      with looped(3) Some show ?thesis by simp
    qed
  qed
  with run show "fst (use_deduction_theorem h set_iter H original premise) \<noteq>
      Inl (ValueError (''Unable to find the antecedent of '' @ name t))"
    by (simp add: scan_msg_def)
qed

text \<open>
  The hand-assembled \<open>forged_proof\<close> makes the loop, and the whole call, raise the
  error at its second line; the proof of the test of deduction.py, built with the step
  constructors, does not raise it.
\<close>

theorem malformed_input_proof_witness:
  "\<not> prop_eq (\<lambda>n. n) atom_q atom_p \<and>
   \<not> py_in (\<lambda>n. n) atom_q (premises ([forged_proof, init []] ! 0)) \<and>
   take 2 ''(MP 1, 1)'' \<noteq> ''(A'' \<and>
   \<not> has_pair (\<lambda>n. n) (lines ([forged_proof, init []] ! 0)) atom_q \<and>
   transform_loop (\<lambda>n. n) 0 1 atom_p [(atom_q, ''(MP 1, 1)'')] [forged_proof, init []] =
     (Some (ValueError ''Unable to find the antecedent of q''), [forged_proof, init []]) \<and>
   fst (use_deduction_theorem (\<lambda>n. n) (\<lambda>xs. xs) [forged_proof] 0 atom_p) =
     Inl (ValueError ''Unable to find the antecedent of q'') \<and>
   0 < length [demo_proof] \<and> api_built UNIV (\<lambda>n. n) ([demo_proof] ! 0) \<and>
   inj_on (\<lambda>n :: string. n) (UNIV \<union> name ` set (lines ([demo_proof] ! 0))) \<and>
   (\<forall>t. fst (use_deduction_theorem (\<lambda>n. n) (\<lambda>xs. xs) [demo_proof] 0 demo_premise) \<noteq>
      Inl (ValueError (''Unable to find the antecedent of '' @ name t)))"
proof -
  have a: "\<not> prop_eq (\<lambda>n. n) atom_q atom_p \<and>
      \<not> py_in (\<lambda>n. n) atom_q (premises ([forged_proof, init []] ! 0)) \<and>
      take 2 ''(MP 1, 1)'' \<noteq> ''(A'' \<and>
      \<not> has_pair (\<lambda>n. n) (lines ([forged_proof, init []] ! 0)) atom_q"
    by code_simp
  then have a': "\<forall>tj \<in> set (lines ([forged_proof, init []] ! 0)).
      \<forall>tk \<in> set (lines ([forged_proof, init []] ! 0)).
        \<not> prop_eq (\<lambda>n. n) tk (Proposition tj atom_q)"
    by (simp add: has_pair_def gt_def)
  have top: "fst (use_deduction_theorem (\<lambda>n. n) (\<lambda>xs. xs) [forged_proof] 0 atom_p) =
      Inl (ValueError ''Unable to find the antecedent of q'')"
    by code_simp
  have b: "0 < length [demo_proof] \<and> api_built UNIV (\<lambda>n. n) ([demo_proof] ! 0) \<and>
      inj_on (\<lambda>n :: string. n) (UNIV \<union> name ` set (lines ([demo_proof] ! 0)))"
    using api_built_demo_proof by (simp add: inj_on_def)
  have q: "name atom_q = ''q''" by (simp add: atom_q_def)
  note forged = malformed_input_proof [where h = "\<lambda>n. n" and line = atom_q
      and premise = atom_p and H = "[forged_proof, init []]" and original = 0
      and application = "''(MP 1, 1)''" and new_proof = 1 and rest = "[]"]
  note demo = malformed_input_proof [where h = "\<lambda>n. n" and H = "[demo_proof]"
      and original = 0 and premise = demo_premise and set_iter = "\<lambda>xs. xs" and N = UNIV]
  from a a' forged
  have "transform_loop (\<lambda>n. n) 0 1 atom_p [(atom_q, ''(MP 1, 1)'')] [forged_proof, init []] =
      (Some (ValueError ''Unable to find the antecedent of q''), [forged_proof, init []])"
    by (simp add: q)
  moreover from b demo
  have "\<forall>t. fst (use_deduction_theorem (\<lambda>n. n) (\<lambda>xs. xs) [demo_proof] 0 demo_premise) \<noteq>
      Inl (ValueError (''Unable to find the antecedent of '' @ name t))"
    by blast
  ultimately show ?thesis using a top b by blast
qed

text \<open>
  Claim C7 fails as stated: without the condition on the hash, a proof built with the
  step constructors alone can make the transformer raise the error. Under
  \<open>colliding_hash\<close> the line \<open>q\<close> of \<open>collision_proof\<close> comes by modus ponens from the lines
  \<open>s\<close> and \<open>(p => q)\<close>, and the scan looks for a line equal to \<open>(s => q)\<close>.
\<close>

theorem malformed_input_proof_counterexample:
  "api_built UNIV colliding_hash collision_proof \<and>
   map name (lines collision_proof) = [''s'', ''(p => q)'', ''q''] \<and>
   applications collision_proof = [''(premise)'', ''(premise)'', ''(MP 1, 2)''] \<and>
   fst (use_deduction_theorem colliding_hash (\<lambda>xs. xs) [collision_proof] 0 atom_s) =
     Inl (ValueError ''Unable to find the antecedent of q'')"
proof -
  have "api_built UNIV colliding_hash collision_proof"
    unfolding collision_proof_def
    by (intro api_built_snd_modus_ponens built_init) code_simp
  moreover have "map name (lines collision_proof) = [''s'', ''(p => q)'', ''q'']"
    by code_simp
  moreover have "applications collision_proof = [''(premise)'', ''(premise)'', ''(MP 1, 2)'']"
    by code_simp
  moreover have
    "fst (use_deduction_theorem colliding_hash (\<lambda>xs. xs) [collision_proof] 0 atom_s) =
       Inl (ValueError ''Unable to find the antecedent of q'')"
    by code_simp
  ultimately show ?thesis by simp
qed

section \<open>The Deduction Theorem on the example proofs\<close>

text \<open>
  On the test of deduction.py the transformer returns a proof from the premises \<open>p\<close> and
  \<open>q\<close> whose last line is \<open>((p => (q => false)) => false)\<close>.
\<close>

lemma demo_deduction:
  "fst (use_deduction_theorem (\<lambda>n. n) (\<lambda>xs. xs) [demo_proof] 0 demo_premise) = Inr 1 \<and>
   premises (snd (use_deduction_theorem (\<lambda>n. n) (\<lambda>xs. xs) [demo_proof] 0 demo_premise) ! 1) =
     [atom_p, atom_q] \<and>
   last (lines (snd (use_deduction_theorem (\<lambda>n. n) (\<lambda>xs. xs) [demo_proof] 0 demo_premise) ! 1)) =
     Proposition demo_premise false"
  by code_simp

text \<open>
  Claim C1 fails on the code. \<open>late_pair_proof\<close> is built with the step constructors
  from the premise \<open>p\<close>; its fourth line \<open>t\<close> comes by modus ponens from its second and
  third lines, and its sixth line is \<open>(p => t)\<close>. The scan for the fourth line runs over
  all the lines and stops at the pair of the first and the sixth line; \<open>(p => (p => t))\<close>
  is not yet in the new proof, and \<open>modus_ponens\<close> raises.
\<close>

theorem deduction_raises_on_built_proof:
  "api_built UNIV (\<lambda>n. n) late_pair_proof \<and>
   premises late_pair_proof = [atom_p] \<and>
   map name (lines late_pair_proof) =
     [''p'', ''(q => (r => q))'', ''((q => (r => q)) => (q => (q => (r => q))))'',
      ''(q => (q => (r => q)))'',
      ''((q => (q => (r => q))) => (p => (q => (q => (r => q)))))'',
      ''(p => (q => (q => (r => q))))''] \<and>
   applications late_pair_proof =
     [''(premise)'', ''(A1)'', ''(A1)'', ''(MP 2, 3)'', ''(A1)'', ''(MP 4, 5)''] \<and>
   find_pair (\<lambda>n. n) (lines late_pair_proof) (lines late_pair_proof ! 3) =
     Some (lines late_pair_proof ! 0, lines late_pair_proof ! 5) \<and>
   fst (use_deduction_theorem (\<lambda>n. n) (\<lambda>xs. xs) [late_pair_proof] 0 atom_p) =
     Inl (ValueError
       ''Antecedent (p => (p => (q => (q => (r => q))))) has not been proven: unable to apply modus ponens'')"
proof -
  have "premises late_pair_proof = [atom_p]"
    by code_simp
  moreover have "map name (lines late_pair_proof) =
     [''p'', ''(q => (r => q))'', ''((q => (r => q)) => (q => (q => (r => q))))'',
      ''(q => (q => (r => q)))'',
      ''((q => (q => (r => q))) => (p => (q => (q => (r => q)))))'',
      ''(p => (q => (q => (r => q))))'']"
    by code_simp
  moreover have "applications late_pair_proof =
     [''(premise)'', ''(A1)'', ''(A1)'', ''(MP 2, 3)'', ''(A1)'', ''(MP 4, 5)'']"
    by code_simp
  moreover have "find_pair (\<lambda>n. n) (lines late_pair_proof) (lines late_pair_proof ! 3) =
     Some (lines late_pair_proof ! 0, lines late_pair_proof ! 5)"
    by code_simp
  moreover have "fst (use_deduction_theorem (\<lambda>n. n) (\<lambda>xs. xs) [late_pair_proof] 0 atom_p) =
     Inl (ValueError
       ''Antecedent (p => (p => (q => (q => (r => q))))) has not been proven: unable to apply modus ponens'')"
    by code_simp
  ultimately show ?thesis using api_built_late_pair_proof by simp
qed

end
